theory Spec2Isabelle
  imports Complex_Main "HOL-Library.Char_ord" "HOL-Library.List_Lexorder"
begin

section \<open>Data model of performance-monitoring.py\<close>

text \<open>
  Python floats are modelled as reals: the code only compares them, subtracts small
  integers from 100.0 and takes max/min, all of which are exact on the values involved.
  NaN and infinities are outside the model. Timestamps of samples, alerts and snapshots
  are the ISO-8601 strings of the source and are compared as SQLite compares TEXT, byte
  by byte. Readings of \<^verbatim>\<open>datetime.now()\<close> that the code subtracts from each other are
  integers (microseconds), passed in as arguments.
\<close>

text \<open>
  The values a metadata dictionary can hold are the JSON-native ones, so that
  \<^verbatim>\<open>json.loads (json.dumps d)\<close> gives \<^verbatim>\<open>d\<close> back; the column of the table is kept as the
  decoded dictionary. A dictionary is an association list; the empty list is \<^verbatim>\<open>{}\<close>.
\<close>

datatype json = JNull | JBool bool | JInt int | JFloat real | JStr string
  | JList "json list" | JObj "(string \<times> json) list"

type_synonym metadata_dict = "(string \<times> json) list"

record PerformanceMetric =
  timestamp :: string
  metric_name :: string
  metric_value :: real
  unit :: string
  threshold_warning :: "real option"
  threshold_critical :: "real option"
  metadata :: "metadata_dict option"

text \<open>
  An f-string is kept as its template and its arguments; Python's number formatting
  (\<^verbatim>\<open>:.2f\<close>, \<^verbatim>\<open>:.1f\<close>, \<^verbatim>\<open>str\<close> of a float) is not modelled.
\<close>

datatype alert_message =
    CriticallyHigh string real string real
  | Elevated string real string real
  | HasRecovered string real string

record PerformanceAlert =
  alert_timestamp :: string
  alert_type :: string
  alert_metric_name :: string
  current_value :: real
  threshold :: real
  message :: alert_message
  severity :: string
  resolved :: bool
  resolved_at :: "string option"

datatype bottleneck = IsCritical string real string | IsElevated string real string

record SystemHealth =
  health_timestamp :: string
  health_score :: real
  status :: string
  active_alerts :: nat
  performance_grade :: string
  bottlenecks :: "bottleneck list"
  recommendations :: "string list"

section \<open>PerformanceDatabase\<close>

text \<open>
  The three tables, each the list of its rows in insertion order. A failure of the
  storage medium itself is outside the model. \<^verbatim>\<open>ORDER BY timestamp DESC\<close> is a sort by
  the timestamp text; SQL leaves the order of rows with equal timestamps open, and the
  model takes the reverse of a stable ascending sort.
\<close>

record PerformanceDatabase =
  performance_metrics :: "PerformanceMetric list"
  performance_alerts :: "PerformanceAlert list"
  system_health :: "SystemHealth list"

definition init_database :: PerformanceDatabase where
  "init_database = \<lparr>performance_metrics = [], performance_alerts = [], system_health = []\<rparr>"

definition dict_truthy :: "metadata_dict option \<Rightarrow> bool" where
  "dict_truthy d = (case d of None \<Rightarrow> False | Some kvs \<Rightarrow> kvs \<noteq> [])"

definition store_metric :: "PerformanceDatabase \<Rightarrow> PerformanceMetric \<Rightarrow> PerformanceDatabase" where
  "store_metric d metric =
     d\<lparr>performance_metrics := performance_metrics d @
          [metric\<lparr>metadata := (if dict_truthy (metadata metric) then metadata metric else None)\<rparr>]\<rparr>"

definition store_alert :: "PerformanceDatabase \<Rightarrow> PerformanceAlert \<Rightarrow> PerformanceDatabase" where
  "store_alert d alert = d\<lparr>performance_alerts := performance_alerts d @ [alert]\<rparr>"

definition store_health_snapshot :: "PerformanceDatabase \<Rightarrow> SystemHealth \<Rightarrow> PerformanceDatabase" where
  "store_health_snapshot d health = d\<lparr>system_health := system_health d @ [health]\<rparr>"

definition order_by_desc :: "('a \<Rightarrow> string) \<Rightarrow> 'a list \<Rightarrow> 'a list" where
  "order_by_desc key rows = rev (sort_key key rows)"

text \<open>
  \<^verbatim>\<open>start_time\<close> is the text \<^verbatim>\<open>(datetime.now() - timedelta(hours=hours)).isoformat()\<close>
  that the query receives.
\<close>

definition get_recent_metrics ::
  "PerformanceDatabase \<Rightarrow> string \<Rightarrow> string \<Rightarrow> PerformanceMetric list" where
  "get_recent_metrics d name start_time =
     order_by_desc timestamp
       (filter (\<lambda>row. metric_name row = name \<and> start_time \<le> timestamp row)
          (performance_metrics d))"

definition get_active_alerts :: "PerformanceDatabase \<Rightarrow> PerformanceAlert list" where
  "get_active_alerts d =
     order_by_desc alert_timestamp (filter (\<lambda>row. \<not> resolved row) (performance_alerts d))"

section \<open>AlertManager\<close>

text \<open>
  \<^verbatim>\<open>t and v >= t\<close> on an optional float: \<^verbatim>\<open>None\<close> and \<^verbatim>\<open>0\<close> are both falsy.
\<close>

definition breaches :: "real option \<Rightarrow> real \<Rightarrow> bool" where
  "breaches t v = (case t of None \<Rightarrow> False | Some c \<Rightarrow> c \<noteq> 0 \<and> v \<ge> c)"

text \<open>\<^verbatim>\<open>metric.threshold_warning or 0\<close>\<close>

definition or_zero :: "real option \<Rightarrow> real" where
  "or_zero t = (case t of None \<Rightarrow> 0 | Some c \<Rightarrow> c)"

text \<open>
  A notification handler is known by its name; what it does with an alert happens
  outside the program, so each call is recorded in \<open>notifications\<close>. A handler that
  raises is caught and logged and the loop goes on, so the record is the same.
\<close>

record AlertManager =
  db :: PerformanceDatabase
  recent_alerts :: "string \<rightharpoonup> int"
  notification_handlers :: "string list"
  notifications :: "(string \<times> PerformanceAlert) list"

definition alert_cooldown :: int where
  "alert_cooldown = 15 * 60 * 1000000"

definition new_alert_manager :: "PerformanceDatabase \<Rightarrow> AlertManager" where
  "new_alert_manager d =
     \<lparr>db = d, recent_alerts = Map.empty, notification_handlers = [], notifications = []\<rparr>"

definition register_notification_handler :: "AlertManager \<Rightarrow> string \<Rightarrow> AlertManager" where
  "register_notification_handler am handler =
     am\<lparr>notification_handlers := notification_handlers am @ [handler]\<rparr>"

definition get_recent_alerts_for_metric ::
  "PerformanceDatabase \<Rightarrow> string \<Rightarrow> PerformanceAlert list" where
  "get_recent_alerts_for_metric d name =
     filter (\<lambda>alert. alert_metric_name alert = name) (get_active_alerts d)"

text \<open>
  The value of the local variable \<^verbatim>\<open>alert\<close> of \<^verbatim>\<open>check_metric_thresholds\<close> when the
  if/elif/else chain is over, before the cooldown is applied.
\<close>

definition classify :: "PerformanceDatabase \<Rightarrow> PerformanceMetric \<Rightarrow> PerformanceAlert option" where
  "classify d metric =
    (if breaches (threshold_critical metric) (metric_value metric) then
       Some \<lparr>alert_timestamp = timestamp metric, alert_type = ''critical'',
             alert_metric_name = metric_name metric, current_value = metric_value metric,
             threshold = the (threshold_critical metric),
             message = CriticallyHigh (metric_name metric) (metric_value metric) (unit metric)
                         (the (threshold_critical metric)),
             severity = ''critical'', resolved = False, resolved_at = None\<rparr>
     else if breaches (threshold_warning metric) (metric_value metric) then
       Some \<lparr>alert_timestamp = timestamp metric, alert_type = ''warning'',
             alert_metric_name = metric_name metric, current_value = metric_value metric,
             threshold = the (threshold_warning metric),
             message = Elevated (metric_name metric) (metric_value metric) (unit metric)
                         (the (threshold_warning metric)),
             severity = ''warning'', resolved = False, resolved_at = None\<rparr>
     else if get_recent_alerts_for_metric d (metric_name metric) \<noteq> [] then
       Some \<lparr>alert_timestamp = timestamp metric, alert_type = ''recovery'',
             alert_metric_name = metric_name metric, current_value = metric_value metric,
             threshold = or_zero (threshold_warning metric),
             message = HasRecovered (metric_name metric) (metric_value metric) (unit metric),
             severity = ''info'', resolved = True, resolved_at = Some (timestamp metric)\<rparr>
     else None)"

definition cooldown_key :: "PerformanceAlert \<Rightarrow> string" where
  "cooldown_key alert = alert_metric_name alert @ ''_'' @ alert_type alert"

text \<open>
  \<open>now_check\<close> is the clock reading subtracted from the last alert time (taken only when
  the key has an entry; an entry is a \<^verbatim>\<open>datetime\<close>, which is always truthy), \<open>now_store\<close>
  the reading written into the map. The result is the returned boolean and the map
  afterwards.
\<close>

definition is_in_cooldown ::
  "int \<Rightarrow> int \<Rightarrow> (string \<rightharpoonup> int) \<Rightarrow> PerformanceAlert \<Rightarrow> bool \<times> (string \<rightharpoonup> int)" where
  "is_in_cooldown now_check now_store recent alert =
    (case recent (cooldown_key alert) of
       Some last_alert_time \<Rightarrow>
         if now_check - last_alert_time < alert_cooldown then (True, recent)
         else (False, recent(cooldown_key alert \<mapsto> now_store))
     | None \<Rightarrow> (False, recent(cooldown_key alert \<mapsto> now_store)))"

definition send_alert :: "AlertManager \<Rightarrow> PerformanceAlert \<Rightarrow> AlertManager" where
  "send_alert am alert =
     am\<lparr>db := store_alert (db am) alert,
        notifications := notifications am @ map (\<lambda>handler. (handler, alert)) (notification_handlers am)\<rparr>"

definition check_metric_thresholds ::
  "int \<Rightarrow> int \<Rightarrow> AlertManager \<Rightarrow> PerformanceMetric \<Rightarrow> PerformanceAlert option \<times> AlertManager" where
  "check_metric_thresholds now_check now_store am metric =
    (case classify (db am) metric of
       None \<Rightarrow> (None, am)
     | Some alert \<Rightarrow>
         (case is_in_cooldown now_check now_store (recent_alerts am) alert of
            (True, recent) \<Rightarrow> (None, am\<lparr>recent_alerts := recent\<rparr>)
          | (False, recent) \<Rightarrow> (Some alert, send_alert (am\<lparr>recent_alerts := recent\<rparr>) alert)))"

text \<open>
  The loop of \<^verbatim>\<open>_collect_and_analyze_metrics\<close> over the collected samples: each is
  stored, then checked, and a returned alert is appended to \<^verbatim>\<open>alerts_generated\<close>. Every
  sample comes with the two clock readings its check may take.
\<close>

fun store_and_check ::
  "AlertManager \<Rightarrow> (int \<times> int \<times> PerformanceMetric) list \<Rightarrow> PerformanceAlert list
    \<Rightarrow> AlertManager \<times> PerformanceAlert list" where
  "store_and_check am [] alerts_generated = (am, alerts_generated)"
| "store_and_check am ((now_check, now_store, metric) # rest) alerts_generated =
    (case check_metric_thresholds now_check now_store
            (am\<lparr>db := store_metric (db am) metric\<rparr>) metric of
       (None, am') \<Rightarrow> store_and_check am' rest alerts_generated
     | (Some alert, am') \<Rightarrow> store_and_check am' rest (alerts_generated @ [alert]))"

section \<open>Collectors\<close>

text \<open>
  What a collector reads from outside (psutil, sockets, the HTTP probes, the log files)
  is an input: each call either returns its values or raises. The body of a
  \<^verbatim>\<open>try\<close> block is a sequence of steps over the list \<^verbatim>\<open>metrics\<close>; a step gives the
  list afterwards and the exception it raised, if any, and a raised exception skips every
  step after it. \<^verbatim>\<open>except Exception\<close> then logs it and the list built so far is returned.
  The exceptions are those below \<^verbatim>\<open>Exception\<close>; an interrupt or an exit is not modelled.
\<close>

datatype py_exception = AttributeError | OSError | ZeroDivisionError | OtherException string

type_synonym try_state = "PerformanceMetric list \<times> py_exception option"

definition then_do :: "try_state \<Rightarrow> (PerformanceMetric list \<Rightarrow> try_state) \<Rightarrow> try_state" where
  "then_do state step =
     (case state of (metrics, None) \<Rightarrow> step metrics | (metrics, Some e) \<Rightarrow> (metrics, Some e))"

text \<open>\<^verbatim>\<open>round(x, 2)\<close>, to the nearest hundredth with ties to the even one.\<close>

definition py_round2 :: "real \<Rightarrow> real" where
  "py_round2 x =
     (let scaled = x * 100; lower = \<lfloor>scaled\<rfloor>; rest = scaled - of_int lower
      in (if rest < 1 / 2 then of_int lower
          else if rest > 1 / 2 then of_int lower + 1
          else if even lower then of_int lower else of_int lower + 1) / 100)"

definition gb :: "int \<Rightarrow> json" where
  "gb bytes = JFloat (py_round2 (of_int bytes / 1024 ^ 3))"

record svmem =
  vm_total :: int
  vm_available :: int
  vm_percent :: real
  vm_used :: int

record sdiskusage =
  du_total :: int
  du_used :: int
  du_free :: int

record sdiskio =
  read_count :: int
  write_count :: int
  read_bytes :: int
  write_bytes :: int
  read_time :: int
  write_time :: int

text \<open>
  \<open>create_connection host\<close> is the time in milliseconds that connecting to the host
  and closing the socket took, or the exception raised.
\<close>

record system_probes =
  cpu_percent :: "py_exception + real"
  cpu_count :: "py_exception + int option"
  virtual_memory :: "py_exception + svmem"
  disk_usage :: "py_exception + sdiskusage"
  disk_io_counters :: "py_exception + sdiskio option"
  getloadavg :: "py_exception + real \<times> real \<times> real"
  create_connection :: "string \<Rightarrow> py_exception + real"

definition system_thresholds :: "(string \<times> real \<times> real) list" where
  "system_thresholds =
     [(''cpu_usage'', 70, 85), (''memory_usage'', 75, 90), (''disk_usage'', 80, 95),
      (''disk_io_latency'', 100, 500), (''network_latency'', 200, 1000),
      (''load_average'', 2.0, 5.0)]"

definition warning_of :: "(string \<times> real \<times> real) list \<Rightarrow> string \<Rightarrow> real option" where
  "warning_of thresholds name = Some (fst (the (map_of thresholds name)))"

definition critical_of :: "(string \<times> real \<times> real) list \<Rightarrow> string \<Rightarrow> real option" where
  "critical_of thresholds name = Some (snd (the (map_of thresholds name)))"

definition collect_cpu :: "string \<Rightarrow> system_probes \<Rightarrow> PerformanceMetric list \<Rightarrow> try_state" where
  "collect_cpu now_iso probes metrics =
    (case cpu_percent probes of
       Inl e \<Rightarrow> (metrics, Some e)
     | Inr percent \<Rightarrow>
        (case cpu_count probes of
           Inl e \<Rightarrow> (metrics, Some e)
         | Inr cores \<Rightarrow>
            (metrics @
              [\<lparr>timestamp = now_iso, metric_name = ''cpu_usage'', metric_value = percent,
                unit = ''percent'',
                threshold_warning = warning_of system_thresholds ''cpu_usage'',
                threshold_critical = critical_of system_thresholds ''cpu_usage'',
                metadata = Some [(''cores'', case cores of None \<Rightarrow> JNull | Some n \<Rightarrow> JInt n)]\<rparr>],
             None)))"

definition collect_memory :: "string \<Rightarrow> system_probes \<Rightarrow> PerformanceMetric list \<Rightarrow> try_state" where
  "collect_memory now_iso probes metrics =
    (case virtual_memory probes of
       Inl e \<Rightarrow> (metrics, Some e)
     | Inr memory \<Rightarrow>
        (metrics @
          [\<lparr>timestamp = now_iso, metric_name = ''memory_usage'', metric_value = vm_percent memory,
            unit = ''percent'',
            threshold_warning = warning_of system_thresholds ''memory_usage'',
            threshold_critical = critical_of system_thresholds ''memory_usage'',
            metadata = Some [(''total_gb'', gb (vm_total memory)),
                             (''available_gb'', gb (vm_available memory)),
                             (''used_gb'', gb (vm_used memory))]\<rparr>],
         None))"

definition collect_disk :: "string \<Rightarrow> system_probes \<Rightarrow> PerformanceMetric list \<Rightarrow> try_state" where
  "collect_disk now_iso probes metrics =
    (case disk_usage probes of
       Inl e \<Rightarrow> (metrics, Some e)
     | Inr disk \<Rightarrow>
        if du_total disk = 0 then (metrics, Some ZeroDivisionError)
        else
          (metrics @
            [\<lparr>timestamp = now_iso, metric_name = ''disk_usage'',
              metric_value = (of_int (du_used disk) / of_int (du_total disk)) * 100,
              unit = ''percent'',
              threshold_warning = warning_of system_thresholds ''disk_usage'',
              threshold_critical = critical_of system_thresholds ''disk_usage'',
              metadata = Some [(''total_gb'', gb (du_total disk)),
                               (''used_gb'', gb (du_used disk)),
                               (''free_gb'', gb (du_free disk))]\<rparr>],
           None))"

definition collect_disk_io :: "string \<Rightarrow> system_probes \<Rightarrow> PerformanceMetric list \<Rightarrow> try_state" where
  "collect_disk_io now_iso probes metrics =
    (case disk_io_counters probes of
       Inl e \<Rightarrow> (metrics, Some e)
     | Inr None \<Rightarrow> (metrics, None)
     | Inr (Some disk_io) \<Rightarrow>
        (metrics @
          [\<lparr>timestamp = now_iso, metric_name = ''disk_io_latency'',
            metric_value = of_int (read_time disk_io + write_time disk_io)
                             / of_int (max (read_count disk_io + write_count disk_io) 1),
            unit = ''ms'',
            threshold_warning = warning_of system_thresholds ''disk_io_latency'',
            threshold_critical = critical_of system_thresholds ''disk_io_latency'',
            metadata = Some [(''read_bytes'', JInt (read_bytes disk_io)),
                             (''write_bytes'', JInt (write_bytes disk_io)),
                             (''read_count'', JInt (read_count disk_io)),
                             (''write_count'', JInt (write_count disk_io))]\<rparr>],
         None))"

text \<open>The inner \<^verbatim>\<open>try\<close>: \<^verbatim>\<open>except (AttributeError, OSError): pass\<close>.\<close>

definition collect_load_average ::
  "string \<Rightarrow> system_probes \<Rightarrow> PerformanceMetric list \<Rightarrow> try_state" where
  "collect_load_average now_iso probes metrics =
    (case getloadavg probes of
       Inl AttributeError \<Rightarrow> (metrics, None)
     | Inl OSError \<Rightarrow> (metrics, None)
     | Inl e \<Rightarrow> (metrics, Some e)
     | Inr (load1, load5, load15) \<Rightarrow>
        (metrics @
          [\<lparr>timestamp = now_iso, metric_name = ''load_average'', metric_value = load1,
            unit = ''ratio'',
            threshold_warning = warning_of system_thresholds ''load_average'',
            threshold_critical = critical_of system_thresholds ''load_average'',
            metadata = Some [(''load_1min'', JFloat load1), (''load_5min'', JFloat load5),
                             (''load_15min'', JFloat load15)]\<rparr>],
         None))"

definition test_hosts :: "string list" where
  "test_hosts = [''api.linear.app'', ''api.github.com'', ''8.8.8.8'']"

fun successful :: "(py_exception + real) list \<Rightarrow> real list" where
  "successful [] = []"
| "successful (Inl e # rest) = successful rest"
| "successful (Inr latency # rest) = latency # successful rest"

definition test_network_latency :: "system_probes \<Rightarrow> real option" where
  "test_network_latency probes =
    (let latencies = successful (map (create_connection probes) test_hosts)
     in if latencies \<noteq> [] then Some (sum_list latencies / real (length latencies)) else None)"

definition collect_network_latency ::
  "string \<Rightarrow> system_probes \<Rightarrow> PerformanceMetric list \<Rightarrow> try_state" where
  "collect_network_latency now_iso probes metrics =
    (case test_network_latency probes of
       None \<Rightarrow> (metrics, None)
     | Some network_latency \<Rightarrow>
        (metrics @
          [\<lparr>timestamp = now_iso, metric_name = ''network_latency'',
            metric_value = network_latency, unit = ''ms'',
            threshold_warning = warning_of system_thresholds ''network_latency'',
            threshold_critical = critical_of system_thresholds ''network_latency'',
            metadata = None\<rparr>],
         None))"

text \<open>\<^verbatim>\<open>SystemPerformanceMonitor.collect_metrics\<close>\<close>

definition system_steps ::
  "string \<Rightarrow> system_probes \<Rightarrow> (PerformanceMetric list \<Rightarrow> try_state) list" where
  "system_steps now_iso probes =
     [collect_cpu now_iso probes, collect_memory now_iso probes, collect_disk now_iso probes,
      collect_disk_io now_iso probes, collect_load_average now_iso probes,
      collect_network_latency now_iso probes]"

definition collect_metrics :: "string \<Rightarrow> system_probes \<Rightarrow> PerformanceMetric list" where
  "collect_metrics now_iso probes = fst (foldl then_do ([], None) (system_steps now_iso probes))"

text \<open>
  The application collector. \<^verbatim>\<open>_get_script_performance_metrics\<close> and
  \<^verbatim>\<open>_calculate_error_rate\<close> read log files; what they return, or the exception that
  leaves them (both test \<^verbatim>\<open>exists()\<close> outside their own \<^verbatim>\<open>try\<close>), is an input.
  \<^verbatim>\<open>_test_api_response_time\<close> catches what its request raises and returns \<^verbatim>\<open>None\<close>.
\<close>

record pmem =
  pid :: int
  rss :: int
  vms :: int

record application_probes =
  script_performance_metrics :: "py_exception + PerformanceMetric list"
  api_response_time :: "string \<Rightarrow> real option"
  memory_info :: "py_exception + pmem"
  error_rate :: "py_exception + PerformanceMetric option"

definition application_thresholds :: "(string \<times> real \<times> real) list" where
  "application_thresholds =
     [(''script_execution_time'', 30, 60), (''api_response_time'', 2000, 5000),
      (''memory_usage_mb'', 512, 1024), (''error_rate'', 5, 10), (''queue_size'', 100, 500)]"

definition api_metric :: "string \<Rightarrow> string \<Rightarrow> real \<Rightarrow> PerformanceMetric" where
  "api_metric now_iso api response_time =
     \<lparr>timestamp = now_iso, metric_name = ''api_response_time_'' @ api,
      metric_value = response_time, unit = ''ms'',
      threshold_warning = warning_of application_thresholds ''api_response_time'',
      threshold_critical = critical_of application_thresholds ''api_response_time'',
      metadata = Some [(''api'', JStr api)]\<rparr>"

definition get_api_performance_metrics ::
  "string \<Rightarrow> application_probes \<Rightarrow> PerformanceMetric list" where
  "get_api_performance_metrics now_iso probes =
     (case api_response_time probes ''linear'' of
        None \<Rightarrow> [] | Some t \<Rightarrow> [api_metric now_iso ''linear'' t]) @
     (case api_response_time probes ''github'' of
        None \<Rightarrow> [] | Some t \<Rightarrow> [api_metric now_iso ''github'' t])"

definition get_application_memory_usage ::
  "string \<Rightarrow> application_probes \<Rightarrow> PerformanceMetric option" where
  "get_application_memory_usage now_iso probes =
    (case memory_info probes of
       Inl e \<Rightarrow> None
     | Inr info \<Rightarrow>
        Some \<lparr>timestamp = now_iso, metric_name = ''memory_usage_mb'',
              metric_value = of_int (rss info) / (1024 * 1024), unit = ''MB'',
              threshold_warning = warning_of application_thresholds ''memory_usage_mb'',
              threshold_critical = critical_of application_thresholds ''memory_usage_mb'',
              metadata = Some [(''pid'', JInt (pid info)),
                 (''rss_mb'', JFloat (py_round2 (of_int (rss info) / (1024 * 1024)))),
                 (''vms_mb'', JFloat (py_round2 (of_int (vms info) / (1024 * 1024))))]\<rparr>)"

definition collect_scripts ::
  "application_probes \<Rightarrow> PerformanceMetric list \<Rightarrow> try_state" where
  "collect_scripts probes metrics =
    (case script_performance_metrics probes of
       Inl e \<Rightarrow> (metrics, Some e)
     | Inr script_metrics \<Rightarrow> (metrics @ script_metrics, None))"

definition collect_apis ::
  "string \<Rightarrow> application_probes \<Rightarrow> PerformanceMetric list \<Rightarrow> try_state" where
  "collect_apis now_iso probes metrics =
     (metrics @ get_api_performance_metrics now_iso probes, None)"

definition collect_app_memory ::
  "string \<Rightarrow> application_probes \<Rightarrow> PerformanceMetric list \<Rightarrow> try_state" where
  "collect_app_memory now_iso probes metrics =
    (case get_application_memory_usage now_iso probes of
       None \<Rightarrow> (metrics, None)
     | Some app_memory \<Rightarrow> (metrics @ [app_memory], None))"

definition collect_error_rate ::
  "application_probes \<Rightarrow> PerformanceMetric list \<Rightarrow> try_state" where
  "collect_error_rate probes metrics =
    (case error_rate probes of
       Inl e \<Rightarrow> (metrics, Some e)
     | Inr None \<Rightarrow> (metrics, None)
     | Inr (Some rate) \<Rightarrow> (metrics @ [rate], None))"

text \<open>\<^verbatim>\<open>ApplicationPerformanceMonitor.collect_metrics\<close>\<close>

definition application_steps ::
  "string \<Rightarrow> application_probes \<Rightarrow> (PerformanceMetric list \<Rightarrow> try_state) list" where
  "application_steps now_iso probes =
     [collect_scripts probes, collect_apis now_iso probes, collect_app_memory now_iso probes,
      collect_error_rate probes]"

definition collect_application_metrics ::
  "string \<Rightarrow> application_probes \<Rightarrow> PerformanceMetric list" where
  "collect_application_metrics now_iso probes =
     fst (foldl then_do ([], None) (application_steps now_iso probes))"

text \<open>
  What a step appends to an empty list, and the exception it raises there. A step
  only appends when, on any list, it adds the same samples and raises the same, and adds
  nothing when it raises.
\<close>

definition appended :: "(PerformanceMetric list \<Rightarrow> try_state) \<Rightarrow> PerformanceMetric list" where
  "appended step = fst (step [])"

definition raised :: "(PerformanceMetric list \<Rightarrow> try_state) \<Rightarrow> py_exception option" where
  "raised step = snd (step [])"

definition only_appends :: "(PerformanceMetric list \<Rightarrow> try_state) \<Rightarrow> bool" where
  "only_appends step \<longleftrightarrow>
     (\<forall>metrics. step metrics = (metrics @ appended step, raised step))
     \<and> (raised step \<noteq> None \<longrightarrow> appended step = [])"

text \<open>
  Probe results for a machine without \<^verbatim>\<open>getloadavg\<close> on which only one of the three
  test hosts answers, and the same machine with a failing CPU probe.
\<close>

definition windows_probes :: system_probes where
  "windows_probes =
     \<lparr>cpu_percent = Inr 92, cpu_count = Inr (Some 8),
      virtual_memory = Inr \<lparr>vm_total = 17179869184, vm_available = 8589934592,
                             vm_percent = 50, vm_used = 8589934592\<rparr>,
      disk_usage = Inr \<lparr>du_total = 536870912000, du_used = 268435456000,
                         du_free = 268435456000\<rparr>,
      disk_io_counters = Inr None,
      getloadavg = Inl AttributeError,
      create_connection = (\<lambda>host. if host = ''8.8.8.8'' then Inr 12 else Inl OSError)\<rparr>"

definition cpu_probe_down :: system_probes where
  "cpu_probe_down = windows_probes\<lparr>cpu_percent := Inl (OtherException ''psutil.Error'')\<rparr>"

section \<open>Health aggregation\<close>

text \<open>
  The loop over the metrics of \<^verbatim>\<open>_calculate_system_health\<close>, with the running score and
  the list of bottlenecks it appends to.
\<close>

fun deduct_metrics ::
  "PerformanceMetric list \<Rightarrow> real \<Rightarrow> bottleneck list \<Rightarrow> real \<times> bottleneck list" where
  "deduct_metrics [] score found = (score, found)"
| "deduct_metrics (metric # rest) score found =
    (if breaches (threshold_critical metric) (metric_value metric) then
       deduct_metrics rest (score - 20)
         (found @ [IsCritical (metric_name metric) (metric_value metric) (unit metric)])
     else if breaches (threshold_warning metric) (metric_value metric) then
       deduct_metrics rest (score - 10)
         (found @ [IsElevated (metric_name metric) (metric_value metric) (unit metric)])
     else deduct_metrics rest score found)"

definition status_of :: "real \<Rightarrow> string \<times> string" where
  "status_of score =
    (if score \<ge> 90 then (''healthy'', ''A'')
     else if score \<ge> 75 then (''good'', ''B'')
     else if score \<ge> 60 then (''degraded'', ''C'')
     else if score \<ge> 40 then (''poor'', ''D'')
     else (''critical'', ''F''))"

text \<open>
  \<open>now_iso\<close> is the text \<^verbatim>\<open>datetime.now().isoformat()\<close> read when the function starts.
\<close>

definition calculate_system_health ::
  "string \<Rightarrow> PerformanceMetric list \<Rightarrow> PerformanceAlert list \<Rightarrow> SystemHealth" where
  "calculate_system_health now_iso metrics alerts =
    (let (deducted, found) = deduct_metrics metrics 100 [];
         critical_alerts = filter (\<lambda>a. severity a = ''critical'') alerts;
         warning_alerts = filter (\<lambda>a. severity a = ''warning'') alerts;
         score = deducted - real (length critical_alerts) * 15 - real (length warning_alerts) * 5;
         clamped = max 0 (min 100 score)
     in \<lparr>health_timestamp = now_iso,
         health_score = clamped,
         status = fst (status_of clamped),
         active_alerts = length alerts,
         performance_grade = snd (status_of clamped),
         bottlenecks = found,
         recommendations =
           (if found \<noteq> [] then [''Address performance bottlenecks identified''] else []) @
           (if critical_alerts \<noteq> [] then [''Immediately resolve critical performance alerts''] else []) @
           (if clamped < 80 then [''Review system capacity and resource allocation''] else [])\<rparr>)"

text \<open>A sample with every zero threshold replaced by an absent one.\<close>

definition zero_as_absent :: "real option \<Rightarrow> real option" where
  "zero_as_absent t = (if t = Some 0 then None else t)"

definition without_zero_thresholds :: "PerformanceMetric \<Rightarrow> PerformanceMetric" where
  "without_zero_thresholds metric =
     metric\<lparr>threshold_warning := zero_as_absent (threshold_warning metric),
            threshold_critical := zero_as_absent (threshold_critical metric)\<rparr>"

text \<open>The sample and the alert of the scenario of the specification.\<close>

definition cpu_sample :: PerformanceMetric where
  "cpu_sample = \<lparr>timestamp = ''2024-05-01T10:00:00'', metric_name = ''cpu_usage'',
      metric_value = 92, unit = ''percent'', threshold_warning = Some 70,
      threshold_critical = Some 85, metadata = Some [(''cores'', JInt 8)]\<rparr>"

definition cpu_alert :: PerformanceAlert where
  "cpu_alert = \<lparr>alert_timestamp = ''2024-05-01T10:00:00'', alert_type = ''critical'',
      alert_metric_name = ''cpu_usage'', current_value = 92, threshold = 85,
      message = CriticallyHigh ''cpu_usage'' 92 ''percent'' 85,
      severity = ''critical'', resolved = False, resolved_at = None\<rparr>"

text \<open>
  The rest of \<^verbatim>\<open>_collect_and_analyze_metrics\<close>, from the collected samples on. The
  optimizer called in between acts on the process and on log files, not on the database
  or the alert manager.
\<close>

definition collect_and_analyze_metrics ::
  "string \<Rightarrow> AlertManager \<Rightarrow> (int \<times> int \<times> PerformanceMetric) list \<Rightarrow> AlertManager" where
  "collect_and_analyze_metrics now_iso am all_metrics =
    (case store_and_check am all_metrics [] of
       (am', alerts_generated) \<Rightarrow>
         am'\<lparr>db := store_health_snapshot (db am')
                  (calculate_system_health now_iso (map (\<lambda>(_, _, metric). metric) all_metrics)
                     alerts_generated)\<rparr>)"

text \<open>The operations that write to the store, and a sequence of them run in order.\<close>

datatype operation =
    Evaluate int int PerformanceMetric
  | StoreMetric PerformanceMetric
  | StoreAlert PerformanceAlert
  | StoreHealthSnapshot SystemHealth
  | MonitoringCycle string "(int \<times> int \<times> PerformanceMetric) list"

fun apply_operation :: "AlertManager \<Rightarrow> operation \<Rightarrow> AlertManager" where
  "apply_operation am (Evaluate now_check now_store metric) =
     snd (check_metric_thresholds now_check now_store am metric)"
| "apply_operation am (StoreMetric metric) = am\<lparr>db := store_metric (db am) metric\<rparr>"
| "apply_operation am (StoreAlert alert) = am\<lparr>db := store_alert (db am) alert\<rparr>"
| "apply_operation am (StoreHealthSnapshot health) =
     am\<lparr>db := store_health_snapshot (db am) health\<rparr>"
| "apply_operation am (MonitoringCycle now_iso all_metrics) =
     collect_and_analyze_metrics now_iso am all_metrics"

definition run_operations :: "AlertManager \<Rightarrow> operation list \<Rightarrow> AlertManager" where
  "run_operations am ops = foldl apply_operation am ops"

text \<open>
  A manager with one handler on an empty store, the same manager once it has dispatched
  the alert of the scenario at clock reading 0, the sample of the scenario back in range,
  and the recovery alert built for it.
\<close>

definition fresh_manager :: AlertManager where
  "fresh_manager =
     register_notification_handler (new_alert_manager init_database) ''_log_alert''"

definition cpu_manager :: AlertManager where
  "cpu_manager = snd (check_metric_thresholds 0 0 fresh_manager cpu_sample)"

definition calm_sample :: PerformanceMetric where
  "calm_sample = cpu_sample\<lparr>timestamp := ''2024-05-01T10:05:00'', metric_value := 50\<rparr>"

definition cpu_recovery :: PerformanceAlert where
  "cpu_recovery = \<lparr>alert_timestamp = ''2024-05-01T10:05:00'', alert_type = ''recovery'',
      alert_metric_name = ''cpu_usage'', current_value = 50, threshold = 70,
      message = HasRecovered ''cpu_usage'' 50 ''percent'',
      severity = ''info'', resolved = True, resolved_at = Some ''2024-05-01T10:05:00''\<rparr>"

text \<open>The sample of the scenario with a zero critical, or a zero warning, threshold.\<close>

definition zero_critical_sample :: PerformanceMetric where
  "zero_critical_sample = cpu_sample\<lparr>threshold_critical := Some 0\<rparr>"

definition zero_warning_sample :: PerformanceMetric where
  "zero_warning_sample = cpu_sample\<lparr>threshold_warning := Some 0\<rparr>"

text \<open>The sample of the scenario with an empty metadata dictionary.\<close>

definition bare_sample :: PerformanceMetric where
  "bare_sample = cpu_sample\<lparr>metadata := Some []\<rparr>"

text \<open>
  The sample of the scenario with warning threshold 0, critical threshold 1 and a value
  between them.
\<close>

definition half_sample :: PerformanceMetric where
  "half_sample = cpu_sample\<lparr>metric_value := 1 / 2, threshold_warning := Some 0,
      threshold_critical := Some 1\<rparr>"

text \<open>
  The score as the specification words it, to compare with the code: a sample counts
  for a threshold when the threshold is present and the value is at least the threshold,
  zero or not.
\<close>

definition reaches :: "real option \<Rightarrow> real \<Rightarrow> bool" where
  "reaches t v = (case t of None \<Rightarrow> False | Some c \<Rightarrow> v \<ge> c)"

definition claimed_health_score :: "PerformanceMetric list \<Rightarrow> PerformanceAlert list \<Rightarrow> real" where
  "claimed_health_score metrics alerts =
     max 0 (min 100 (100
       - 20 * real (length (filter (\<lambda>m. reaches (threshold_critical m) (metric_value m)) metrics))
       - 10 * real (length (filter (\<lambda>m. \<not> reaches (threshold_critical m) (metric_value m)
                \<and> reaches (threshold_warning m) (metric_value m)) metrics))
       - 15 * real (length (filter (\<lambda>a. severity a = ''critical'') alerts))
       - 5 * real (length (filter (\<lambda>a. severity a = ''warning'') alerts))))"

text \<open>
  The manager of the scenario once it has also dispatched the recovery alert, at clock
  reading 300000000 (five minutes), and a second sample in range one minute later.
\<close>

definition recovered_manager :: AlertManager where
  "recovered_manager =
     snd (check_metric_thresholds 300000000 300000000 cpu_manager calm_sample)"

definition calm_again :: PerformanceMetric where
  "calm_again = calm_sample\<lparr>timestamp := ''2024-05-01T10:06:00'', metric_value := 48\<rparr>"

text \<open>
  \<^verbatim>\<open>_calculate_system_health\<close> is a method of \<^verbatim>\<open>PerformanceMonitoringSystem\<close>: the
  object it is called on holds the store (shared with the alert manager), the alert
  manager with its cooldown map and handlers, and the flags of the monitoring loop. The
  method as called on such an object gives the snapshot and the object afterwards; its
  body reads the clock once and never touches \<^verbatim>\<open>self\<close>.
\<close>

record PerformanceMonitoringSystem =
  alert_manager :: AlertManager
  monitoring_active :: bool
  monitoring_interval :: nat


section \<open>Threshold classification\<close>

lemma check_returns_built_alert:
  "fst (check_metric_thresholds now_check now_store am metric) = Some returned \<Longrightarrow>
   classify (db am) metric = Some returned"
  by (auto simp: check_metric_thresholds_def split: option.splits prod.splits bool.splits)

text \<open>
  C1, as the code has it. The code tests a threshold by truthiness, so a threshold
  takes part when it is present and not zero. If the critical threshold is present, not
  zero, and the value reaches it, the alert built for the sample is a critical one and
  not a warning; otherwise, if the warning threshold is present, not zero, and the value
  reaches it, the alert is a warning. So a value from a non-zero warning threshold up to,
  but below, the critical threshold gives a warning. An alert that the evaluation returns
  is the alert built, so it is of the same kind.
\<close>

theorem classify_critical_then_warning:
  "(threshold_critical metric = Some c \<and> c \<noteq> 0 \<and> metric_value metric \<ge> c \<longrightarrow>
      (\<exists>alert. classify d metric = Some alert \<and> alert_type alert = ''critical''
         \<and> severity alert = ''critical'' \<and> alert_type alert \<noteq> ''warning''
         \<and> threshold alert = c \<and> alert_metric_name alert = metric_name metric))
   \<and> (\<not> (\<exists>c. threshold_critical metric = Some c \<and> c \<noteq> 0 \<and> metric_value metric \<ge> c) \<and>
        threshold_warning metric = Some w \<and> w \<noteq> 0 \<and> metric_value metric \<ge> w \<longrightarrow>
      (\<exists>alert. classify d metric = Some alert \<and> alert_type alert = ''warning''
         \<and> severity alert = ''warning'' \<and> threshold alert = w
         \<and> alert_metric_name alert = metric_name metric))
   \<and> (threshold_warning metric = Some w \<and> w \<noteq> 0 \<and> threshold_critical metric = Some c \<and>
        w \<le> metric_value metric \<and> metric_value metric < c \<longrightarrow>
      (\<exists>alert. classify d metric = Some alert \<and> alert_type alert = ''warning''))
   \<and> (threshold_critical metric = Some c \<and> c \<noteq> 0 \<and> metric_value metric \<ge> c \<and>
        fst (check_metric_thresholds now_check now_store am metric) = Some returned \<longrightarrow>
      alert_type returned = ''critical'')
   \<and> (threshold_warning metric = Some w \<and> w \<noteq> 0 \<and> threshold_critical metric = Some c \<and>
        w \<le> metric_value metric \<and> metric_value metric < c \<and>
        fst (check_metric_thresholds now_check now_store am metric) = Some returned \<longrightarrow>
      alert_type returned = ''warning'')"
proof -
  have critical: "\<And>store. threshold_critical metric = Some c \<and> c \<noteq> 0 \<and> metric_value metric \<ge> c \<longrightarrow>
      (\<exists>alert. classify store metric = Some alert \<and> alert_type alert = ''critical''
         \<and> severity alert = ''critical'' \<and> alert_type alert \<noteq> ''warning''
         \<and> threshold alert = c \<and> alert_metric_name alert = metric_name metric)"
    by (simp add: classify_def breaches_def)
  have warning: "\<not> (\<exists>c. threshold_critical metric = Some c \<and> c \<noteq> 0 \<and> metric_value metric \<ge> c) \<and>
        threshold_warning metric = Some w \<and> w \<noteq> 0 \<and> metric_value metric \<ge> w \<longrightarrow>
      (\<exists>alert. classify d metric = Some alert \<and> alert_type alert = ''warning''
         \<and> severity alert = ''warning'' \<and> threshold alert = w
         \<and> alert_metric_name alert = metric_name metric)"
    by (auto simp: classify_def breaches_def split: option.splits)
  have between: "\<And>store. threshold_warning metric = Some w \<and> w \<noteq> 0 \<and> threshold_critical metric = Some c \<and>
        w \<le> metric_value metric \<and> metric_value metric < c \<longrightarrow>
      (\<exists>alert. classify store metric = Some alert \<and> alert_type alert = ''warning'')"
    by (simp add: classify_def breaches_def)
  have returned_critical: "threshold_critical metric = Some c \<and> c \<noteq> 0 \<and> metric_value metric \<ge> c \<and>
        fst (check_metric_thresholds now_check now_store am metric) = Some returned \<longrightarrow>
      alert_type returned = ''critical''"
    using critical [of "db am"] check_returns_built_alert [of now_check now_store am metric returned]
    by auto
  have returned_warning: "threshold_warning metric = Some w \<and> w \<noteq> 0 \<and> threshold_critical metric = Some c \<and>
        w \<le> metric_value metric \<and> metric_value metric < c \<and>
        fst (check_metric_thresholds now_check now_store am metric) = Some returned \<longrightarrow>
      alert_type returned = ''warning''"
    using between [of "db am"] check_returns_built_alert [of now_check now_store am metric returned]
    by auto
  from critical [of d] warning between [of d] returned_critical returned_warning
  show ?thesis by blast
qed

lemma classify_cpu_sample: "classify d cpu_sample = Some cpu_alert"
  by (simp add: classify_def cpu_sample_def cpu_alert_def breaches_def)

theorem classify_critical_then_warning_witness:
  "classify init_database cpu_sample = Some cpu_alert \<and> alert_type cpu_alert = ''critical''
   \<and> (\<exists>alert. classify init_database (cpu_sample\<lparr>metric_value := 80\<rparr>) = Some alert
         \<and> alert_type alert = ''warning'')"
proof -
  have crit: "threshold_critical cpu_sample = Some 85 \<and> (85::real) \<noteq> 0
      \<and> metric_value cpu_sample \<ge> 85"
    by (simp add: cpu_sample_def)
  have warn: "threshold_warning (cpu_sample\<lparr>metric_value := 80\<rparr>) = Some 70 \<and> (70::real) \<noteq> 0
      \<and> threshold_critical (cpu_sample\<lparr>metric_value := 80\<rparr>) = Some 85
      \<and> 70 \<le> metric_value (cpu_sample\<lparr>metric_value := 80\<rparr>)
      \<and> metric_value (cpu_sample\<lparr>metric_value := 80\<rparr>) < 85"
    by (simp add: cpu_sample_def)
  from crit classify_critical_then_warning [of cpu_sample 85 init_database 70 _ _ fresh_manager]
  have "\<exists>alert. classify init_database cpu_sample = Some alert \<and> alert_type alert = ''critical''"
    by blast
  moreover from warn
    classify_critical_then_warning
      [of "cpu_sample\<lparr>metric_value := 80\<rparr>" 85 init_database 70 _ _ fresh_manager]
  have "\<exists>alert. classify init_database (cpu_sample\<lparr>metric_value := 80\<rparr>) = Some alert
      \<and> alert_type alert = ''warning''"
    by blast
  ultimately show ?thesis
    by (simp add: classify_cpu_sample cpu_alert_def)
qed

section \<open>Health score\<close>

lemma deduct_metrics_score:
  "fst (deduct_metrics metrics score found) =
     score - 20 * real (length (filter (\<lambda>m. breaches (threshold_critical m) (metric_value m)) metrics))
       - 10 * real (length (filter (\<lambda>m. \<not> breaches (threshold_critical m) (metric_value m)
                \<and> breaches (threshold_warning m) (metric_value m)) metrics))"
  by (induction metrics arbitrary: score found) auto

lemma health_score_eq:
  "health_score (calculate_system_health now_iso metrics alerts) =
     max 0 (min 100 (fst (deduct_metrics metrics 100 [])
       - real (length (filter (\<lambda>a. severity a = ''critical'') alerts)) * 15
       - real (length (filter (\<lambda>a. severity a = ''warning'') alerts)) * 5))"
  by (simp add: calculate_system_health_def Let_def case_prod_beta)

lemma health_status_eq:
  "status (calculate_system_health now_iso metrics alerts) =
     fst (status_of (health_score (calculate_system_health now_iso metrics alerts)))"
  "performance_grade (calculate_system_health now_iso metrics alerts) =
     snd (status_of (health_score (calculate_system_health now_iso metrics alerts)))"
  by (simp_all add: calculate_system_health_def Let_def case_prod_beta)

lemma health_cpu_scenario:
  "health_score (calculate_system_health now_iso [cpu_sample] [cpu_alert]) = 65"
  by (simp add: health_score_eq deduct_metrics_score breaches_def cpu_sample_def cpu_alert_def)

lemma breaches_reaches:
  "t \<noteq> Some 0 \<Longrightarrow> breaches t v = reaches t v"
  by (auto simp: breaches_def reaches_def split: option.splits)

lemma breaches_iff:
  "breaches t v \<longleftrightarrow> (\<exists>c. t = Some c \<and> c \<noteq> 0 \<and> v \<ge> c)"
  by (auto simp: breaches_def split: option.splits)

lemma claimed_when_no_zero:
  assumes "\<forall>m \<in> set metrics. threshold_critical m \<noteq> Some 0 \<and> threshold_warning m \<noteq> Some 0"
  shows "health_score (calculate_system_health now_iso metrics alerts) =
     claimed_health_score metrics alerts"
proof -
  have c: "filter (\<lambda>m. breaches (threshold_critical m) (metric_value m)) metrics =
      filter (\<lambda>m. reaches (threshold_critical m) (metric_value m)) metrics"
    using assms by (intro filter_cong) (auto simp: breaches_reaches)
  have w: "filter (\<lambda>m. \<not> breaches (threshold_critical m) (metric_value m)
                \<and> breaches (threshold_warning m) (metric_value m)) metrics =
      filter (\<lambda>m. \<not> reaches (threshold_critical m) (metric_value m)
                \<and> reaches (threshold_warning m) (metric_value m)) metrics"
    using assms by (intro filter_cong) (auto simp: breaches_reaches)
  show ?thesis
    unfolding claimed_health_score_def c [symmetric] w [symmetric]
    by (simp add: health_score_eq deduct_metrics_score mult.commute)
qed

text \<open>
  C2, as the code has it. The health score is 100 less 20 for each sample whose
  critical threshold is present, not zero, and reached by its value, 10 for each other
  sample whose warning threshold is present, not zero, and reached, 15 for each alert of
  severity critical and 5 for each alert of severity warning, clamped to 0..100. On a
  batch without zero thresholds this is the score of the specification. Status and grade
  follow from the score by the breakpoints 90, 75, 60 and 40. For the scenario's CPU
  sample and its critical alert the score is 65, the status degraded, the grade C.
\<close>

theorem calculate_system_health_score:
  "health_score (calculate_system_health now_iso metrics alerts) =
     max 0 (min 100 (100
       - 20 * real (length (filter
           (\<lambda>m. \<exists>c. threshold_critical m = Some c \<and> c \<noteq> 0 \<and> metric_value m \<ge> c) metrics))
       - 10 * real (length (filter
           (\<lambda>m. \<not> (\<exists>c. threshold_critical m = Some c \<and> c \<noteq> 0 \<and> metric_value m \<ge> c)
                \<and> (\<exists>w. threshold_warning m = Some w \<and> w \<noteq> 0 \<and> metric_value m \<ge> w)) metrics))
       - 15 * real (length (filter (\<lambda>a. severity a = ''critical'') alerts))
       - 5 * real (length (filter (\<lambda>a. severity a = ''warning'') alerts))))
   \<and> ((\<forall>m \<in> set metrics. threshold_critical m \<noteq> Some 0 \<and> threshold_warning m \<noteq> Some 0) \<longrightarrow>
        health_score (calculate_system_health now_iso metrics alerts) =
          claimed_health_score metrics alerts)
   \<and> (status (calculate_system_health now_iso metrics alerts),
       performance_grade (calculate_system_health now_iso metrics alerts)) =
      (let score = health_score (calculate_system_health now_iso metrics alerts)
       in if score \<ge> 90 then (''healthy'', ''A'')
          else if score \<ge> 75 then (''good'', ''B'')
          else if score \<ge> 60 then (''degraded'', ''C'')
          else if score \<ge> 40 then (''poor'', ''D'')
          else (''critical'', ''F''))
   \<and> classify d cpu_sample = Some cpu_alert
   \<and> health_score (calculate_system_health now_iso [cpu_sample] [cpu_alert]) = 65
   \<and> status (calculate_system_health now_iso [cpu_sample] [cpu_alert]) = ''degraded''
   \<and> performance_grade (calculate_system_health now_iso [cpu_sample] [cpu_alert]) = ''C''"
proof -
  have score: "health_score (calculate_system_health now_iso metrics alerts) =
     max 0 (min 100 (100
       - 20 * real (length (filter
           (\<lambda>m. \<exists>c. threshold_critical m = Some c \<and> c \<noteq> 0 \<and> metric_value m \<ge> c) metrics))
       - 10 * real (length (filter
           (\<lambda>m. \<not> (\<exists>c. threshold_critical m = Some c \<and> c \<noteq> 0 \<and> metric_value m \<ge> c)
                \<and> (\<exists>w. threshold_warning m = Some w \<and> w \<noteq> 0 \<and> metric_value m \<ge> w)) metrics))
       - 15 * real (length (filter (\<lambda>a. severity a = ''critical'') alerts))
       - 5 * real (length (filter (\<lambda>a. severity a = ''warning'') alerts))))"
    by (simp add: health_score_eq deduct_metrics_score breaches_iff mult.commute)
  have grade: "(status (calculate_system_health now_iso metrics alerts),
       performance_grade (calculate_system_health now_iso metrics alerts)) =
      (let score = health_score (calculate_system_health now_iso metrics alerts)
       in if score \<ge> 90 then (''healthy'', ''A'')
          else if score \<ge> 75 then (''good'', ''B'')
          else if score \<ge> 60 then (''degraded'', ''C'')
          else if score \<ge> 40 then (''poor'', ''D'')
          else (''critical'', ''F''))"
    unfolding health_status_eq Let_def status_of_def by simp
  have s: "status (calculate_system_health now_iso [cpu_sample] [cpu_alert]) = ''degraded''"
    unfolding health_status_eq health_cpu_scenario status_of_def by simp
  have g: "performance_grade (calculate_system_health now_iso [cpu_sample] [cpu_alert]) = ''C''"
    unfolding health_status_eq health_cpu_scenario status_of_def by simp
  from score grade s g show ?thesis
    using classify_cpu_sample health_cpu_scenario claimed_when_no_zero by blast
qed

theorem calculate_system_health_score_witness:
  "threshold_critical cpu_sample \<noteq> Some 0 \<and> threshold_warning cpu_sample \<noteq> Some 0
   \<and> health_score (calculate_system_health ''2024-05-01T10:00:30'' [cpu_sample] [cpu_alert]) = 65
   \<and> claimed_health_score [cpu_sample] [cpu_alert] = 65"
proof -
  have nonzero: "\<forall>m \<in> set [cpu_sample]. threshold_critical m \<noteq> Some 0 \<and> threshold_warning m \<noteq> Some 0"
    by (simp add: cpu_sample_def)
  from calculate_system_health_score [of "''2024-05-01T10:00:30''" "[cpu_sample]" "[cpu_alert]"] nonzero
  have "health_score (calculate_system_health ''2024-05-01T10:00:30'' [cpu_sample] [cpu_alert]) =
      claimed_health_score [cpu_sample] [cpu_alert]"
    by blast
  with nonzero show ?thesis
    by (simp add: health_cpu_scenario)
qed

text \<open>
  C2 as stated fails: the sample of the scenario with critical threshold 0 has a value
  at or above that threshold, so the specification's formula takes 20 off and gives 80;
  the code skips the zero threshold, takes 10 off for the warning threshold and gives 90.
\<close>

theorem zero_critical_scores_more_than_claimed:
  "threshold_critical zero_critical_sample = Some 0
   \<and> metric_value zero_critical_sample \<ge> 0
   \<and> health_score (calculate_system_health ''2024-05-01T10:00:00'' [zero_critical_sample] []) = 90
   \<and> claimed_health_score [zero_critical_sample] [] = 80"
  by (simp add: health_score_eq deduct_metrics_score breaches_def claimed_health_score_def
      reaches_def zero_critical_sample_def cpu_sample_def)



section \<open>The store and the evaluator, step by step\<close>

lemma set_order_by_desc: "set (order_by_desc k rows) = set rows"
  by (simp add: order_by_desc_def)

lemma set_get_active_alerts:
  "set (get_active_alerts d) = {a \<in> set (performance_alerts d). \<not> resolved a}"
  by (auto simp: get_active_alerts_def set_order_by_desc)

lemma recent_alerts_nonempty:
  "get_recent_alerts_for_metric d name \<noteq> [] \<longleftrightarrow>
     (\<exists>a \<in> set (get_active_alerts d). alert_metric_name a = name)"
  by (auto simp: get_recent_alerts_for_metric_def filter_empty_conv)

lemma check_metric_thresholds_None:
  "classify (db am) metric = None \<Longrightarrow> check_metric_thresholds now_check now_store am metric = (None, am)"
  by (simp add: check_metric_thresholds_def)

lemma check_metric_thresholds_Some:
  "classify (db am) metric = Some alert \<Longrightarrow>
   check_metric_thresholds now_check now_store am metric =
     (if fst (is_in_cooldown now_check now_store (recent_alerts am) alert) then (None, am)
      else (Some alert,
            am\<lparr>db := store_alert (db am) alert,
               recent_alerts := (recent_alerts am)(cooldown_key alert \<mapsto> now_store),
               notifications := notifications am @
                 map (\<lambda>handler. (handler, alert)) (notification_handlers am)\<rparr>))"
  by (auto simp: check_metric_thresholds_def is_in_cooldown_def send_alert_def
      split: option.splits)

lemma fst_is_in_cooldown:
  "fst (is_in_cooldown now_check now_store recent alert) \<longleftrightarrow>
     (\<exists>last. recent (cooldown_key alert) = Some last \<and> now_check - last < alert_cooldown)"
  by (auto simp: is_in_cooldown_def split: option.splits)


lemma cpu_manager_fields:
  "performance_alerts (db cpu_manager) = [cpu_alert]"
  "recent_alerts cpu_manager = [''cpu_usage_critical'' \<mapsto> 0]"
  "notification_handlers cpu_manager = [''_log_alert'']"
  "notifications cpu_manager = [(''_log_alert'', cpu_alert)]"
  by (simp_all add: cpu_manager_def fresh_manager_def
    check_metric_thresholds_Some [OF classify_cpu_sample]
    fst_is_in_cooldown new_alert_manager_def register_notification_handler_def init_database_def
    store_alert_def cooldown_key_def cpu_alert_def)

section \<open>Cooldown\<close>

text \<open>
  C3, as the code has it: an evaluation that builds an alert and is not suppressed writes
  the current clock reading into the cooldown map under the key of the metric name and
  alert type; a suppressed evaluation (the entry is less than 15 minutes old) returns
  without touching the map, so the window is not reset.
\<close>

theorem cooldown_entry_updated_unless_suppressed:
  assumes "classify (db am) metric = Some alert"
  shows "(fst (check_metric_thresholds now_check now_store am metric) = Some alert
          \<and> recent_alerts (snd (check_metric_thresholds now_check now_store am metric)) =
              (recent_alerts am)(cooldown_key alert \<mapsto> now_store))
       \<or> (fst (check_metric_thresholds now_check now_store am metric) = None
          \<and> (\<exists>last. recent_alerts am (cooldown_key alert) = Some last \<and> now_check - last < alert_cooldown)
          \<and> recent_alerts (snd (check_metric_thresholds now_check now_store am metric)) = recent_alerts am)"
  by (simp add: check_metric_thresholds_Some [OF assms] fst_is_in_cooldown)

theorem cooldown_entry_updated_unless_suppressed_witness:
  "classify (db (new_alert_manager init_database)) cpu_sample = Some cpu_alert
   \<and> fst (check_metric_thresholds 5 7 (new_alert_manager init_database) cpu_sample) = Some cpu_alert
   \<and> recent_alerts (snd (check_metric_thresholds 5 7 (new_alert_manager init_database) cpu_sample))
        (cooldown_key cpu_alert) = Some 7"
  using cooldown_entry_updated_unless_suppressed
          [of "new_alert_manager init_database" cpu_sample cpu_alert 5 7]
  by (auto simp: classify_cpu_sample new_alert_manager_def)

text \<open>
  C3 as stated fails: one minute after the alert of the scenario was dispatched at clock
  reading 0, the same sample is evaluated again; the evaluation builds a critical alert,
  is suppressed, and the entry of its key still holds 0, not the current reading.
\<close>

theorem suppressed_evaluation_keeps_cooldown_entry:
  "classify (db cpu_manager) cpu_sample = Some cpu_alert
   \<and> recent_alerts cpu_manager (cooldown_key cpu_alert) = Some 0
   \<and> fst (check_metric_thresholds 60000000 60000000 cpu_manager cpu_sample) = None
   \<and> recent_alerts (snd (check_metric_thresholds 60000000 60000000 cpu_manager cpu_sample))
        (cooldown_key cpu_alert) = Some 0"
  by (simp add: check_metric_thresholds_Some [OF classify_cpu_sample] fst_is_in_cooldown
      cpu_manager_fields cooldown_key_def cpu_alert_def alert_cooldown_def classify_cpu_sample)


section \<open>Recovery\<close>

text \<open>
  C5, as the code has it. A sample that reaches neither of its thresholds (or has none):
  if the store holds an unresolved alert for its metric name, the alert built is a
  recovery alert for that name, resolved, with the time of resolution set; it is returned
  and inserted as a new row unless a recovery alert for that name was dispatched less
  than 15 minutes before, in which case the cooldown suppresses it: nothing is returned
  and nothing inserted. If the store holds no unresolved alert for that name, the
  evaluation returns nothing and changes nothing.
\<close>

theorem recovery_when_active_alert:
  assumes no_critical: "\<not> breaches (threshold_critical metric) (metric_value metric)"
    and no_warning: "\<not> breaches (threshold_warning metric) (metric_value metric)"
  shows "((\<exists>a \<in> set (get_active_alerts (db am)). alert_metric_name a = metric_name metric) \<longrightarrow>
      (\<exists>alert. classify (db am) metric = Some alert
         \<and> alert_type alert = ''recovery'' \<and> resolved alert
         \<and> resolved_at alert = Some (timestamp metric)
         \<and> alert_metric_name alert = metric_name metric
         \<and> fst (check_metric_thresholds now_check now_store am metric) =
              (if fst (is_in_cooldown now_check now_store (recent_alerts am) alert) then None else Some alert)
         \<and> performance_alerts (db (snd (check_metric_thresholds now_check now_store am metric))) =
              (if fst (is_in_cooldown now_check now_store (recent_alerts am) alert) then performance_alerts (db am)
               else performance_alerts (db am) @ [alert])))
    \<and> (\<not> (\<exists>a \<in> set (get_active_alerts (db am)). alert_metric_name a = metric_name metric) \<longrightarrow>
          check_metric_thresholds now_check now_store am metric = (None, am))"
proof (cases "\<exists>a \<in> set (get_active_alerts (db am)). alert_metric_name a = metric_name metric")
  case True
  then have found: "get_recent_alerts_for_metric (db am) (metric_name metric) \<noteq> []"
    by (simp add: recent_alerts_nonempty)
  define alert where "alert = the (classify (db am) metric)"
  have c: "classify (db am) metric = Some alert"
    by (simp add: alert_def classify_def no_critical no_warning found)
  have fields: "alert_type alert = ''recovery''" "resolved alert"
    "resolved_at alert = Some (timestamp metric)" "alert_metric_name alert = metric_name metric"
    using c by (auto simp: classify_def no_critical no_warning found)
  show ?thesis
    using True c fields
    by (simp add: check_metric_thresholds_Some [OF c] store_alert_def)
next
  case False
  then have "get_recent_alerts_for_metric (db am) (metric_name metric) = []"
    using recent_alerts_nonempty [of "db am" "metric_name metric"] by blast
  then have "classify (db am) metric = None"
    by (simp add: classify_def no_critical no_warning)
  with False show ?thesis
    by (simp add: check_metric_thresholds_None)
qed

section \<open>Zero thresholds\<close>

lemma breaches_zero_as_absent: "breaches (zero_as_absent t) v = breaches t v"
  by (simp add: breaches_def zero_as_absent_def split: option.splits)

lemma the_zero_as_absent: "breaches t v \<Longrightarrow> the (zero_as_absent t) = the t"
  by (auto simp: breaches_def zero_as_absent_def split: option.splits)

lemma or_zero_zero_as_absent: "or_zero (zero_as_absent t) = or_zero t"
  by (simp add: or_zero_def zero_as_absent_def)

lemma classify_without_zero_thresholds:
  "classify d (without_zero_thresholds metric) = classify d metric"
  by (simp add: classify_def without_zero_thresholds_def breaches_zero_as_absent
      the_zero_as_absent or_zero_zero_as_absent)

lemma check_without_zero_thresholds:
  "check_metric_thresholds now_check now_store am (without_zero_thresholds metric) =
     check_metric_thresholds now_check now_store am metric"
  by (simp add: check_metric_thresholds_def classify_without_zero_thresholds)

lemma deduct_without_zero_thresholds:
  "deduct_metrics (map without_zero_thresholds metrics) score found =
     deduct_metrics metrics score found"
  by (induction metrics arbitrary: score found)
     (simp_all add: without_zero_thresholds_def breaches_zero_as_absent)

lemma health_without_zero_thresholds:
  "calculate_system_health now_iso (map without_zero_thresholds metrics) alerts =
     calculate_system_health now_iso metrics alerts"
  by (simp add: calculate_system_health_def deduct_without_zero_thresholds)

text \<open>
  C9. A threshold of 0 behaves as an absent one: replacing every zero threshold of a
  sample by an absent one changes neither the alert built for it, nor what the
  evaluation returns and does, nor the health snapshot. A sample whose critical
  threshold is 0 is never classified critical and costs at most the warning penalty,
  whatever its value; a sample whose warning threshold is 0 is never classified warning
  and costs nothing unless it reaches its critical threshold.
\<close>

theorem zero_threshold_is_absent:
  "classify d (without_zero_thresholds metric) = classify d metric
   \<and> check_metric_thresholds now_check now_store am (without_zero_thresholds metric) =
       check_metric_thresholds now_check now_store am metric
   \<and> calculate_system_health now_iso (map without_zero_thresholds metrics) alerts =
       calculate_system_health now_iso metrics alerts
   \<and> (threshold_critical metric = Some 0 \<and> classify d metric = Some alert \<longrightarrow>
         alert_type alert \<noteq> ''critical'' \<and> severity alert \<noteq> ''critical'')
   \<and> (threshold_critical metric = Some 0 \<longrightarrow>
         fst (deduct_metrics [metric] score found) =
           (if breaches (threshold_warning metric) (metric_value metric) then score - 10 else score))
   \<and> (threshold_warning metric = Some 0 \<and> classify d metric = Some alert \<longrightarrow>
         alert_type alert \<noteq> ''warning'' \<and> severity alert \<noteq> ''warning'')
   \<and> (threshold_warning metric = Some 0 \<longrightarrow>
         fst (deduct_metrics [metric] score found) =
           (if breaches (threshold_critical metric) (metric_value metric) then score - 20 else score))"
proof -
  have crit: "threshold_critical metric = Some 0 \<and> classify d metric = Some alert \<longrightarrow>
         alert_type alert \<noteq> ''critical'' \<and> severity alert \<noteq> ''critical''"
    by (auto simp: classify_def breaches_def split: if_splits)
  have warn: "threshold_warning metric = Some 0 \<and> classify d metric = Some alert \<longrightarrow>
         alert_type alert \<noteq> ''warning'' \<and> severity alert \<noteq> ''warning''"
    by (auto simp: classify_def breaches_def split: if_splits)
  have dc: "threshold_critical metric = Some 0 \<longrightarrow>
         fst (deduct_metrics [metric] score found) =
           (if breaches (threshold_warning metric) (metric_value metric) then score - 10 else score)"
    by (simp add: breaches_def)
  have dw: "threshold_warning metric = Some 0 \<longrightarrow>
         fst (deduct_metrics [metric] score found) =
           (if breaches (threshold_critical metric) (metric_value metric) then score - 20 else score)"
    by (simp add: breaches_def)
  from crit warn dc dw show ?thesis
    using classify_without_zero_thresholds check_without_zero_thresholds
      health_without_zero_thresholds by blast
qed

theorem zero_threshold_is_absent_witness:
  "threshold_critical zero_critical_sample = Some 0
   \<and> (\<exists>alert. classify init_database zero_critical_sample = Some alert
        \<and> alert_type alert = ''warning'')
   \<and> fst (deduct_metrics [zero_critical_sample] 100 []) = 90
   \<and> threshold_warning zero_warning_sample = Some 0
   \<and> (\<exists>alert. classify init_database zero_warning_sample = Some alert
        \<and> alert_type alert = ''critical'')
   \<and> fst (deduct_metrics [zero_warning_sample] 100 []) = 80"
proof -
  have zc: "threshold_critical zero_critical_sample = Some 0"
    by (simp add: zero_critical_sample_def)
  have zw: "threshold_warning zero_warning_sample = Some 0"
    by (simp add: zero_warning_sample_def)
  obtain a1 where a1: "classify init_database zero_critical_sample = Some a1"
      "alert_type a1 = ''warning''"
    by (simp add: classify_def zero_critical_sample_def cpu_sample_def breaches_def)
  obtain a2 where a2: "classify init_database zero_warning_sample = Some a2"
      "alert_type a2 = ''critical''"
    by (simp add: classify_def zero_warning_sample_def cpu_sample_def breaches_def)
  have b1: "breaches (threshold_warning zero_critical_sample) (metric_value zero_critical_sample)"
    by (simp add: zero_critical_sample_def cpu_sample_def breaches_def)
  have b2: "breaches (threshold_critical zero_warning_sample) (metric_value zero_warning_sample)"
    by (simp add: zero_warning_sample_def cpu_sample_def breaches_def)
  from zero_threshold_is_absent [of init_database zero_critical_sample _ _ _ _ _ _ a1 100 "[]"] zc a1 b1
  have "alert_type a1 \<noteq> ''critical'' \<and> fst (deduct_metrics [zero_critical_sample] 100 []) = 90"
    by simp
  moreover
  from zero_threshold_is_absent [of init_database zero_warning_sample _ _ _ _ _ _ a2 100 "[]"] zw a2 b2
  have "alert_type a2 \<noteq> ''warning'' \<and> fst (deduct_metrics [zero_warning_sample] 100 []) = 80"
    by simp
  ultimately show ?thesis using zc zw a1 a2 by simp
qed

section \<open>Alert rows are never updated\<close>

lemma check_alerts_append:
  "\<exists>later. performance_alerts (db (snd (check_metric_thresholds now_check now_store am metric))) =
     performance_alerts (db am) @ later"
proof (cases "classify (db am) metric")
  case None
  then show ?thesis by (simp add: check_metric_thresholds_None)
next
  case (Some alert)
  then show ?thesis by (simp add: check_metric_thresholds_Some store_alert_def)
qed

lemma store_and_check_append:
  "\<exists>later. performance_alerts (db (fst (store_and_check am all_metrics generated))) =
     performance_alerts (db am) @ later"
proof (induction all_metrics arbitrary: am generated)
  case Nil
  then show ?case by simp
next
  case (Cons triple rest)
  obtain now_check now_store metric where triple: "triple = (now_check, now_store, metric)"
    by (cases triple) auto
  define am0 where "am0 = am\<lparr>db := store_metric (db am) metric\<rparr>"
  obtain r am1 where step: "check_metric_thresholds now_check now_store am0 metric = (r, am1)"
    by (cases "check_metric_thresholds now_check now_store am0 metric") auto
  have same: "performance_alerts (db am0) = performance_alerts (db am)"
    by (simp add: am0_def store_metric_def)
  from check_alerts_append [of now_check now_store am0 metric] obtain l1 where
    l1: "performance_alerts (db am1) = performance_alerts (db am) @ l1"
    unfolding step same by auto
  have rec: "\<exists>g. store_and_check am (triple # rest) generated = store_and_check am1 rest g"
    using step by (cases r) (auto simp: triple am0_def)
  then obtain g where g: "store_and_check am (triple # rest) generated = store_and_check am1 rest g"
    by blast
  from Cons.IH [of am1 g] obtain l2 where
    "performance_alerts (db (fst (store_and_check am1 rest g))) = performance_alerts (db am1) @ l2"
    by blast
  then show ?case by (simp add: g l1)
qed

lemma apply_operation_append:
  "\<exists>later. performance_alerts (db (apply_operation am op)) = performance_alerts (db am) @ later"
proof (cases op)
  case (Evaluate now_check now_store metric)
  then show ?thesis using check_alerts_append by simp
next
  case (MonitoringCycle now_iso all_metrics)
  from store_and_check_append [of am all_metrics "[]"] show ?thesis
    by (auto simp: MonitoringCycle collect_and_analyze_metrics_def store_health_snapshot_def
        split: prod.splits)
qed (simp_all add: store_metric_def store_alert_def store_health_snapshot_def)

lemma run_operations_append:
  "\<exists>later. performance_alerts (db (run_operations am ops)) = performance_alerts (db am) @ later"
  unfolding run_operations_def
proof (induction ops arbitrary: am)
  case Nil
  then show ?case by simp
next
  case (Cons op ops)
  from apply_operation_append [of am op] obtain l1 where
    l1: "performance_alerts (db (apply_operation am op)) = performance_alerts (db am) @ l1"
    by blast
  from Cons.IH [of "apply_operation am op"] obtain l2 where
    "performance_alerts (db (foldl apply_operation (apply_operation am op) ops)) =
       performance_alerts (db (apply_operation am op)) @ l2"
    by blast
  then show ?case by (simp add: l1)
qed

lemma active_alerts_kept:
  "set (get_active_alerts (db am)) \<subseteq> set (get_active_alerts (db (run_operations am ops)))"
proof -
  from run_operations_append [of am ops] obtain later where
    "performance_alerts (db (run_operations am ops)) = performance_alerts (db am) @ later"
    by blast
  then show ?thesis by (auto simp: set_get_active_alerts)
qed

section \<open>The scenario, evaluated\<close>

lemma fresh_manager_fields:
  "db fresh_manager = init_database"
  "recent_alerts fresh_manager = Map.empty"
  "notification_handlers fresh_manager = [''_log_alert'']"
  "notifications fresh_manager = []"
  by (simp_all add: fresh_manager_def new_alert_manager_def register_notification_handler_def)




lemma classify_calm_sample: "classify (db cpu_manager) calm_sample = Some cpu_recovery"
  by (simp add: classify_def calm_sample_def cpu_sample_def cpu_recovery_def breaches_def
      or_zero_def recent_alerts_nonempty set_get_active_alerts cpu_manager_fields cpu_alert_def)

lemma calm_in_range:
  "\<not> breaches (threshold_critical calm_sample) (metric_value calm_sample)"
  "\<not> breaches (threshold_warning calm_sample) (metric_value calm_sample)"
  by (simp_all add: calm_sample_def cpu_sample_def breaches_def)

lemma cpu_alert_active: "cpu_alert \<in> set (get_active_alerts (db cpu_manager))"
  by (simp add: set_get_active_alerts cpu_manager_fields cpu_alert_def)

theorem recovery_when_active_alert_witness:
  "\<not> breaches (threshold_critical calm_sample) (metric_value calm_sample)
   \<and> \<not> breaches (threshold_warning calm_sample) (metric_value calm_sample)
   \<and> cpu_alert \<in> set (get_active_alerts (db cpu_manager))
   \<and> alert_metric_name cpu_alert = metric_name calm_sample
   \<and> classify (db cpu_manager) calm_sample = Some cpu_recovery
   \<and> fst (check_metric_thresholds 300000000 300000000 cpu_manager calm_sample) = Some cpu_recovery
   \<and> performance_alerts (db (snd (check_metric_thresholds 300000000 300000000 cpu_manager calm_sample)))
        = [cpu_alert, cpu_recovery]
   \<and> set (get_active_alerts (db fresh_manager)) = {}
   \<and> check_metric_thresholds 300000000 300000000 fresh_manager calm_sample = (None, fresh_manager)"
proof -
  have name: "alert_metric_name cpu_alert = metric_name calm_sample"
    by (simp add: cpu_alert_def calm_sample_def cpu_sample_def)
  have free: "\<not> fst (is_in_cooldown 300000000 300000000 (recent_alerts cpu_manager) cpu_recovery)"
    by (simp add: fst_is_in_cooldown cpu_manager_fields cooldown_key_def cpu_recovery_def)
  have none: "set (get_active_alerts (db fresh_manager)) = {}"
    by (simp add: set_get_active_alerts fresh_manager_fields init_database_def)
  from recovery_when_active_alert [OF calm_in_range, of cpu_manager 300000000 300000000]
    cpu_alert_active name classify_calm_sample free
  have "fst (check_metric_thresholds 300000000 300000000 cpu_manager calm_sample) = Some cpu_recovery
    \<and> performance_alerts (db (snd (check_metric_thresholds 300000000 300000000 cpu_manager calm_sample)))
        = [cpu_alert, cpu_recovery]"
    by (auto simp: cpu_manager_fields)
  moreover from recovery_when_active_alert [OF calm_in_range, of fresh_manager 300000000 300000000] none
  have "check_metric_thresholds 300000000 300000000 fresh_manager calm_sample = (None, fresh_manager)"
    by simp
  ultimately show ?thesis
    using calm_in_range cpu_alert_active name classify_calm_sample none by simp
qed

lemma recovered_manager_fields:
  "performance_alerts (db recovered_manager) = [cpu_alert, cpu_recovery]"
  "recent_alerts recovered_manager =
     [''cpu_usage_critical'' \<mapsto> 0, ''cpu_usage_recovery'' \<mapsto> 300000000]"
  by (simp_all add: recovered_manager_def check_metric_thresholds_Some [OF classify_calm_sample]
      fst_is_in_cooldown cpu_manager_fields cooldown_key_def cpu_recovery_def store_alert_def)

text \<open>
  C5 as stated fails: the recovery alert of the scenario was dispatched at five minutes;
  the alert it answers is still unresolved in the store. A second sample in range, one
  minute later, is evaluated: nothing is returned and the manager, with its store, is as
  before, because the key of the recovery alert is in cooldown.
\<close>

theorem recovery_suppressed_by_cooldown:
  "cpu_alert \<in> set (get_active_alerts (db recovered_manager))
   \<and> \<not> resolved cpu_alert
   \<and> alert_metric_name cpu_alert = metric_name calm_again
   \<and> threshold_warning calm_again = Some 70 \<and> threshold_critical calm_again = Some 85
   \<and> metric_value calm_again < 70
   \<and> check_metric_thresholds 360000000 360000000 recovered_manager calm_again =
        (None, recovered_manager)"
proof -
  have active: "cpu_alert \<in> set (get_active_alerts (db recovered_manager))"
    by (simp add: set_get_active_alerts recovered_manager_fields cpu_alert_def)
  have name: "alert_metric_name cpu_alert = metric_name calm_again"
    by (simp add: cpu_alert_def calm_again_def calm_sample_def cpu_sample_def)
  have found: "get_recent_alerts_for_metric (db recovered_manager) (metric_name calm_again) \<noteq> []"
    unfolding recent_alerts_nonempty using active name by blast
  define again where "again = the (classify (db recovered_manager) calm_again)"
  have built: "classify (db recovered_manager) calm_again = Some again"
    using found
    by (simp add: again_def classify_def calm_again_def calm_sample_def cpu_sample_def breaches_def)
  have key: "cooldown_key again = ''cpu_usage_recovery''"
    using built found
    by (auto simp: classify_def calm_again_def calm_sample_def cpu_sample_def breaches_def
        cooldown_key_def)
  have "check_metric_thresholds 360000000 360000000 recovered_manager calm_again =
        (None, recovered_manager)"
    by (simp add: check_metric_thresholds_Some [OF built] fst_is_in_cooldown key
        recovered_manager_fields alert_cooldown_def)
  then show ?thesis
    using active name
    by (simp add: cpu_alert_def calm_again_def calm_sample_def cpu_sample_def)
qed

text \<open>
  C1 as stated fails at a zero threshold. The sample of the scenario with critical
  threshold 0 has a value at or above it and is classified warning, not critical. A
  sample with warning threshold 0, critical threshold 1 and value 1/2 lies between its
  thresholds and is not classified at all: the evaluation returns nothing.
\<close>

theorem zero_thresholds_not_classified:
  "threshold_critical zero_critical_sample = Some 0
   \<and> metric_value zero_critical_sample \<ge> 0
   \<and> map_option alert_type (classify init_database zero_critical_sample) = Some ''warning''
   \<and> threshold_warning half_sample = Some 0
   \<and> threshold_critical half_sample = Some 1
   \<and> 0 \<le> metric_value half_sample \<and> metric_value half_sample < 1
   \<and> classify init_database half_sample = None
   \<and> fst (check_metric_thresholds 0 0 fresh_manager half_sample) = None"
proof -
  have "classify init_database half_sample = None"
    by (simp add: classify_def half_sample_def cpu_sample_def breaches_def
        get_recent_alerts_for_metric_def get_active_alerts_def order_by_desc_def init_database_def)
  moreover have "map_option alert_type (classify init_database zero_critical_sample) = Some ''warning''"
    by (simp add: classify_def zero_critical_sample_def cpu_sample_def breaches_def)
  moreover have "fst (check_metric_thresholds 0 0 fresh_manager half_sample) = None"
    using \<open>classify init_database half_sample = None\<close>
    by (simp add: check_metric_thresholds_None fresh_manager_fields)
  ultimately show ?thesis
    by (simp add: zero_critical_sample_def half_sample_def cpu_sample_def)
qed

section \<open>Active alerts stay active\<close>

lemma check_recovery_row:
  assumes "check_metric_thresholds now_check now_store am metric = (Some alert, am')"
    and "alert_type alert = ''recovery''"
  shows "resolved alert \<and> performance_alerts (db am') = performance_alerts (db am) @ [alert]"
proof (cases "classify (db am) metric")
  case None
  with assms show ?thesis by (simp add: check_metric_thresholds_None)
next
  case (Some built)
  with assms(1) have "built = alert"
    "am' = am\<lparr>db := store_alert (db am) built,
               recent_alerts := (recent_alerts am)(cooldown_key built \<mapsto> now_store),
               notifications := notifications am @
                 map (\<lambda>handler. (handler, built)) (notification_handlers am)\<rparr>"
    by (auto simp: check_metric_thresholds_Some [OF Some] split: if_splits)
  moreover from Some assms(2) \<open>built = alert\<close> have "resolved alert"
    by (auto simp: classify_def split: if_splits)
  ultimately show ?thesis by (simp add: store_alert_def)
qed

lemma classify_recovery_later:
  assumes "a \<in> set (get_active_alerts (db am))" "alert_metric_name a = metric_name metric"
    and "\<not> breaches (threshold_critical metric) (metric_value metric)"
    and "\<not> breaches (threshold_warning metric) (metric_value metric)"
  shows "\<exists>alert. classify (db (run_operations am ops)) metric = Some alert
     \<and> alert_type alert = ''recovery''"
proof -
  from assms(1) active_alerts_kept [of am ops]
  have "a \<in> set (get_active_alerts (db (run_operations am ops)))" by blast
  with assms(2) have "get_recent_alerts_for_metric (db (run_operations am ops)) (metric_name metric) \<noteq> []"
    unfolding recent_alerts_nonempty by blast
  with assms(3,4) show ?thesis by (simp add: classify_def)
qed

text \<open>
  C10. No operation updates a row of the alerts table: every operation, an evaluation,
  a store or a whole monitoring cycle, leaves the rows that were there and appends at
  most new ones. So the unresolved alerts read from the store are still read after any
  sequence of operations. A dispatched recovery alert is a new row that is already
  resolved, and the alert it answers stays unresolved: a later sample in range for that
  metric is classified recovery again.
\<close>

theorem active_alerts_never_lost:
  "set (get_active_alerts (db am)) \<subseteq> set (get_active_alerts (db (run_operations am ops)))
   \<and> (\<exists>later. performance_alerts (db (run_operations am ops)) = performance_alerts (db am) @ later)
   \<and> (check_metric_thresholds now_check now_store am metric = (Some alert, am') \<and> alert_type alert = ''recovery''
        \<longrightarrow> resolved alert \<and> performance_alerts (db am') = performance_alerts (db am) @ [alert])
   \<and> (a \<in> set (get_active_alerts (db am)) \<and> alert_metric_name a = metric_name sample
        \<and> \<not> breaches (threshold_critical sample) (metric_value sample)
        \<and> \<not> breaches (threshold_warning sample) (metric_value sample)
        \<longrightarrow> (\<exists>again. classify (db (run_operations am ops)) sample = Some again
              \<and> alert_type again = ''recovery''))"
  using active_alerts_kept [of am ops] run_operations_append [of am ops]
    check_recovery_row [of now_check now_store am metric alert am']
    classify_recovery_later [of a am sample ops]
  by blast

lemma recovery_evaluation:
  "check_metric_thresholds 300000000 300000000 cpu_manager calm_sample =
     (Some cpu_recovery, snd (check_metric_thresholds 300000000 300000000 cpu_manager calm_sample))"
proof -
  have "fst (check_metric_thresholds 300000000 300000000 cpu_manager calm_sample) = Some cpu_recovery"
    by (simp add: check_metric_thresholds_Some [OF classify_calm_sample] fst_is_in_cooldown
        cpu_manager_fields cooldown_key_def cpu_recovery_def)
  then show ?thesis by (simp add: prod_eq_iff)
qed

theorem active_alerts_never_lost_witness:
  "cpu_alert \<in> set (get_active_alerts (db cpu_manager))
   \<and> cpu_alert \<in> set (get_active_alerts (db (run_operations cpu_manager
        [Evaluate 300000000 300000000 calm_sample, StoreMetric calm_sample,
         MonitoringCycle ''2024-05-01T10:06:00'' [(360000000, 360000000, calm_sample)]])))
   \<and> alert_type cpu_recovery = ''recovery'' \<and> resolved cpu_recovery
   \<and> performance_alerts (db (snd (check_metric_thresholds 300000000 300000000 cpu_manager calm_sample)))
        = performance_alerts (db cpu_manager) @ [cpu_recovery]
   \<and> (\<exists>again. classify (db (run_operations cpu_manager
        [Evaluate 300000000 300000000 calm_sample, StoreMetric calm_sample,
         MonitoringCycle ''2024-05-01T10:06:00'' [(360000000, 360000000, calm_sample)]])) calm_sample
          = Some again \<and> alert_type again = ''recovery'')"
proof -
  have name: "alert_metric_name cpu_alert = metric_name calm_sample"
    by (simp add: cpu_alert_def calm_sample_def cpu_sample_def)
  have kind: "alert_type cpu_recovery = ''recovery''"
    by (simp add: cpu_recovery_def)
  from active_alerts_never_lost [of cpu_manager
        "[Evaluate 300000000 300000000 calm_sample, StoreMetric calm_sample,
         MonitoringCycle ''2024-05-01T10:06:00'' [(360000000, 360000000, calm_sample)]]"
        300000000 300000000 calm_sample cpu_recovery
        "snd (check_metric_thresholds 300000000 300000000 cpu_manager calm_sample)"
        cpu_alert calm_sample]
    cpu_alert_active name kind calm_in_range recovery_evaluation
  show ?thesis by blast
qed

section \<open>Writing a sample and reading it back\<close>

lemma set_get_recent_metrics:
  "set (get_recent_metrics d name start_time) =
     {row \<in> set (performance_metrics d). metric_name row = name \<and> start_time \<le> timestamp row}"
  by (auto simp: get_recent_metrics_def set_order_by_desc)

text \<open>
  C7, as the code has it: a sample written to the store is read back by
  \<^verbatim>\<open>get_recent_metrics\<close> for its name, when the window starts no later than its
  timestamp, with the same timestamp, name, value, unit and thresholds; its metadata is
  the same too, except that an empty dictionary is stored as NULL and read back as
  \<^verbatim>\<open>None\<close>. A sample whose metadata is not the empty dictionary is read back equal in
  every field.
\<close>

theorem store_metric_round_trip:
  assumes "start_time \<le> timestamp metric"
  shows "(\<exists>row \<in> set (get_recent_metrics (store_metric d metric) (metric_name metric) start_time).
      timestamp row = timestamp metric \<and> metric_name row = metric_name metric
      \<and> metric_value row = metric_value metric \<and> unit row = unit metric
      \<and> threshold_warning row = threshold_warning metric
      \<and> threshold_critical row = threshold_critical metric
      \<and> metadata row = (if metadata metric = Some [] then None else metadata metric))
    \<and> (metadata metric \<noteq> Some [] \<longrightarrow>
         metric \<in> set (get_recent_metrics (store_metric d metric) (metric_name metric) start_time))"
proof -
  define row where
    "row = metric\<lparr>metadata := (if dict_truthy (metadata metric) then metadata metric else None)\<rparr>"
  have stored: "row \<in> set (get_recent_metrics (store_metric d metric) (metric_name metric) start_time)"
    using assms by (simp add: set_get_recent_metrics store_metric_def row_def)
  have meta: "metadata row = (if metadata metric = Some [] then None else metadata metric)"
    by (auto simp: row_def dict_truthy_def split: option.splits)
  have same: "metadata metric \<noteq> Some [] \<Longrightarrow> row = metric"
    by (auto simp: row_def dict_truthy_def split: option.splits)
  have fields: "timestamp row = timestamp metric" "metric_name row = metric_name metric"
    "metric_value row = metric_value metric" "unit row = unit metric"
    "threshold_warning row = threshold_warning metric"
    "threshold_critical row = threshold_critical metric"
    by (simp_all add: row_def)
  from stored meta fields have "\<exists>row \<in> set (get_recent_metrics (store_metric d metric) (metric_name metric) start_time).
      timestamp row = timestamp metric \<and> metric_name row = metric_name metric
      \<and> metric_value row = metric_value metric \<and> unit row = unit metric
      \<and> threshold_warning row = threshold_warning metric
      \<and> threshold_critical row = threshold_critical metric
      \<and> metadata row = (if metadata metric = Some [] then None else metadata metric)"
    by blast
  with stored same show ?thesis by metis
qed

theorem store_metric_round_trip_witness:
  "''2024-05-01T00:00:00'' \<le> timestamp cpu_sample
    \<and> metadata cpu_sample \<noteq> Some []
    \<and> cpu_sample \<in> set (get_recent_metrics (store_metric init_database cpu_sample)
          (metric_name cpu_sample) ''2024-05-01T00:00:00'')"
proof -
  have window: "''2024-05-01T00:00:00'' \<le> timestamp cpu_sample"
    by (simp add: cpu_sample_def)
  have meta: "metadata cpu_sample \<noteq> Some []"
    by (simp add: cpu_sample_def)
  from store_metric_round_trip [OF window, of init_database] meta window
  show ?thesis by blast
qed

text \<open>
  C7 as stated fails: the sample of the scenario with \<^verbatim>\<open>metadata = {}\<close> is stored and
  read back with the widest window; the one row returned has \<^verbatim>\<open>metadata = None\<close>, so no
  returned sample equals the original.
\<close>

theorem empty_metadata_not_read_back:
  "'''' \<le> timestamp bare_sample
   \<and> get_recent_metrics (store_metric init_database bare_sample) ''cpu_usage'' '''' =
       [bare_sample\<lparr>metadata := None\<rparr>]
   \<and> bare_sample \<notin> set (get_recent_metrics (store_metric init_database bare_sample) ''cpu_usage'' '''')"
  by (simp add: get_recent_metrics_def order_by_desc_def store_metric_def init_database_def
      bare_sample_def cpu_sample_def dict_truthy_def)

section \<open>Collectors and failing probes\<close>

lemma only_appends_system:
  "only_appends (collect_cpu now_iso probes)"
  "only_appends (collect_memory now_iso probes)"
  "only_appends (collect_disk now_iso probes)"
  "only_appends (collect_disk_io now_iso probes)"
  "only_appends (collect_load_average now_iso probes)"
  "only_appends (collect_network_latency now_iso probes)"
  unfolding only_appends_def appended_def raised_def
  by (simp_all add: collect_cpu_def collect_memory_def collect_disk_def collect_disk_io_def
        collect_load_average_def collect_network_latency_def
        split: sum.splits option.splits py_exception.splits prod.splits)

lemma only_appends_application:
  "only_appends (collect_scripts aprobes)"
  "only_appends (collect_apis now_iso aprobes)"
  "only_appends (collect_app_memory now_iso aprobes)"
  "only_appends (collect_error_rate aprobes)"
  unfolding only_appends_def appended_def raised_def
  by (simp_all add: collect_scripts_def collect_apis_def collect_app_memory_def
        collect_error_rate_def split: sum.splits option.splits)

lemma foldl_then_do_raised: "foldl then_do (metrics, Some e) steps = (metrics, Some e)"
  by (induction steps) (simp_all add: then_do_def)

lemma foldl_then_do_prefix:
  assumes "\<forall>step \<in> set steps. only_appends step"
  shows "fst (foldl then_do (metrics, None) steps) =
     metrics @ concat (map appended (takeWhile (\<lambda>step. raised step = None) steps))"
  using assms
proof (induction steps arbitrary: metrics)
  case Nil
  then show ?case by simp
next
  case (Cons step steps)
  then have a: "only_appends step" and rest: "\<forall>s \<in> set steps. only_appends s"
    by simp_all
  from a have run: "step metrics = (metrics @ appended step, raised step)"
    by (simp add: only_appends_def)
  show ?case
  proof (cases "raised step")
    case None
    with run have "then_do (metrics, None) step = (metrics @ appended step, None)"
      by (simp add: then_do_def)
    with Cons.IH [OF rest, of "metrics @ appended step"] None show ?thesis
      by simp
  next
    case (Some e)
    with a have "appended step = []" by (simp add: only_appends_def)
    with run Some have "then_do (metrics, None) step = (metrics, Some e)"
      by (simp add: then_do_def)
    with Some show ?thesis by (simp add: foldl_then_do_raised)
  qed
qed

lemma collect_metrics_prefix:
  "collect_metrics now_iso probes =
     concat (map appended (takeWhile (\<lambda>step. raised step = None) (system_steps now_iso probes)))"
proof -
  have "\<forall>step \<in> set (system_steps now_iso probes). only_appends step"
    by (simp add: system_steps_def only_appends_system)
  from foldl_then_do_prefix [OF this, of "[]"] show ?thesis
    by (simp add: collect_metrics_def)
qed

lemma collect_application_metrics_prefix:
  "collect_application_metrics now_iso aprobes =
     concat (map appended
       (takeWhile (\<lambda>step. raised step = None) (application_steps now_iso aprobes)))"
proof -
  have "\<forall>step \<in> set (application_steps now_iso aprobes). only_appends step"
    by (simp add: application_steps_def only_appends_application)
  from foldl_then_do_prefix [OF this, of "[]"] show ?thesis
    by (simp add: collect_application_metrics_def)
qed

lemma handled_locally:
  "getloadavg probes = Inl AttributeError \<or> getloadavg probes = Inl OSError \<Longrightarrow>
     raised (collect_load_average now_iso probes) = None"
  "raised (collect_network_latency now_iso probes) = None"
  "raised (collect_apis now_iso aprobes) = None"
  "raised (collect_app_memory now_iso aprobes) = None"
  by (auto simp: raised_def collect_load_average_def collect_network_latency_def collect_apis_def
      collect_app_memory_def split: option.splits)

lemma cpu_failure_empties: "cpu_percent probes = Inl e \<Longrightarrow> collect_metrics now_iso probes = []"
  by (simp add: collect_metrics_prefix system_steps_def raised_def collect_cpu_def)

lemma names_windows:
  "map metric_name (collect_metrics now_iso windows_probes) =
     [''cpu_usage'', ''memory_usage'', ''disk_usage'', ''network_latency'']"
  by (simp add: collect_metrics_def system_steps_def then_do_def collect_cpu_def collect_memory_def
      collect_disk_def collect_disk_io_def collect_load_average_def collect_network_latency_def
      test_network_latency_def test_hosts_def windows_probes_def)

lemma cpu_down: "collect_metrics now_iso cpu_probe_down = []"
  by (simp add: cpu_failure_empties cpu_probe_down_def windows_probes_def)

lemma memory_ok: "raised (collect_memory now_iso cpu_probe_down) = None"
  "map metric_name (appended (collect_memory now_iso cpu_probe_down)) = [''memory_usage'']"
  by (simp_all add: raised_def appended_def collect_memory_def cpu_probe_down_def windows_probes_def)

text \<open>
  C8, as the code has it. A collector never lets the exception of a sub-step out: it
  returns the samples of the sub-steps that ran before the first sub-step whose exception
  is not handled inside that sub-step, and the samples of that sub-step and of all later
  ones are omitted; when the CPU probe raises, the system collector returns nothing. The
  sub-steps that handle their own failure (the load average raising AttributeError or
  OSError, the network probe, the API probes, the process memory) raise nothing, so they
  omit their own sample only and the collection goes on.
\<close>

theorem collectors_return_samples_before_failure:
  "collect_metrics now_iso probes =
     concat (map appended (takeWhile (\<lambda>step. raised step = None) (system_steps now_iso probes)))
   \<and> collect_application_metrics now_iso aprobes =
     concat (map appended
       (takeWhile (\<lambda>step. raised step = None) (application_steps now_iso aprobes)))
   \<and> (getloadavg probes = Inl AttributeError \<or> getloadavg probes = Inl OSError \<longrightarrow>
        raised (collect_load_average now_iso probes) = None)
   \<and> raised (collect_network_latency now_iso probes) = None
   \<and> raised (collect_apis now_iso aprobes) = None
   \<and> raised (collect_app_memory now_iso aprobes) = None
   \<and> (cpu_percent probes = Inl e \<longrightarrow> collect_metrics now_iso probes = [])"
  using collect_metrics_prefix [of now_iso probes]
    collect_application_metrics_prefix [of now_iso aprobes]
    handled_locally cpu_failure_empties [of probes e now_iso]
  by blast

theorem collectors_return_samples_before_failure_witness:
  "getloadavg windows_probes = Inl AttributeError
   \<and> raised (collect_load_average ''2024-05-01T10:00:00'' windows_probes) = None
   \<and> map metric_name (collect_metrics ''2024-05-01T10:00:00'' windows_probes) =
       [''cpu_usage'', ''memory_usage'', ''disk_usage'', ''network_latency'']
   \<and> cpu_percent cpu_probe_down = Inl (OtherException ''psutil.Error'')
   \<and> collect_metrics ''2024-05-01T10:00:00'' cpu_probe_down = []"
proof -
  have load: "getloadavg windows_probes = Inl AttributeError"
    by (simp add: windows_probes_def)
  have cpu: "cpu_percent cpu_probe_down = Inl (OtherException ''psutil.Error'')"
    by (simp add: cpu_probe_down_def)
  from collectors_return_samples_before_failure
         [of "''2024-05-01T10:00:00''" windows_probes _ "OtherException ''psutil.Error''"] load
  have "raised (collect_load_average ''2024-05-01T10:00:00'' windows_probes) = None"
    by blast
  moreover from collectors_return_samples_before_failure
         [of "''2024-05-01T10:00:00''" cpu_probe_down _ "OtherException ''psutil.Error''"] cpu
  have "collect_metrics ''2024-05-01T10:00:00'' cpu_probe_down = []"
    by blast
  ultimately show ?thesis
    using load cpu names_windows by simp
qed

text \<open>
  C8 as stated fails: with a CPU probe that raises, the memory sub-step on its own would
  succeed and append the memory sample, yet the system collector returns no sample at all.
\<close>

theorem failed_cpu_probe_drops_memory_sample:
  "cpu_percent cpu_probe_down = Inl (OtherException ''psutil.Error'')
   \<and> raised (collect_memory ''2024-05-01T10:00:00'' cpu_probe_down) = None
   \<and> map metric_name (appended (collect_memory ''2024-05-01T10:00:00'' cpu_probe_down)) =
       [''memory_usage'']
   \<and> collect_metrics ''2024-05-01T10:00:00'' cpu_probe_down = []"
proof -
  have "cpu_percent cpu_probe_down = Inl (OtherException ''psutil.Error'')"
    by (simp add: cpu_probe_down_def)
  then show ?thesis
    by (simp add: memory_ok cpu_down)
qed

end
